theory Spec2Isabelle
  imports Main
begin

section \<open>Python floats and the format specification \<open>.2f\<close>\<close>

text \<open>
  The only values the program computes with are Python floats (IEEE-754 doubles): the
  price \<open>float(data['Close'][-1])\<close> and the clock reading \<open>time.time()\<close>. No float
  arithmetic is done on them; a price is stored, tested for truthiness and formatted with
  \<open>f"{price:.2f}"\<close>. A float is modelled by what it denotes:
  \<open>Finite s m e\<close> is \<open>(-1)^s * m * 2^e\<close> (sign bit \<open>s\<close>, so \<open>Finite True 0 e\<close> is \<open>-0.0\<close>),
  \<open>Infinity s\<close> is \<open>inf\<close> or \<open>-inf\<close>, and \<open>NaN\<close> is \<open>nan\<close>.
\<close>

datatype pyfloat = Finite bool nat int | Infinity bool | NaN

text \<open>\<open>bool(x)\<close> of a float: false exactly for \<open>0.0\<close> and \<open>-0.0\<close>.\<close>

fun py_truthy :: "pyfloat \<Rightarrow> bool" where
  "py_truthy (Finite s m e) = (m \<noteq> 0)"
| "py_truthy (Infinity s) = True"
| "py_truthy NaN = True"

text \<open>\<open>x > 0\<close> of a float.\<close>

fun py_positive :: "pyfloat \<Rightarrow> bool" where
  "py_positive (Finite s m e) = (\<not> s \<and> m \<noteq> 0)"
| "py_positive (Infinity s) = (\<not> s)"
| "py_positive NaN = False"

fun is_finite :: "pyfloat \<Rightarrow> bool" where
  "is_finite (Finite s m e) = True"
| "is_finite (Infinity s) = False"
| "is_finite NaN = False"

definition digit_char :: "nat \<Rightarrow> char" where
  "digit_char d = ''0123456789'' ! (d mod 10)"

fun dec_digits :: "nat \<Rightarrow> string" where
  "dec_digits n =
     (if n < 10 then [digit_char n] else dec_digits (n div 10) @ [digit_char (n mod 10)])"

declare dec_digits.simps [simp del]

text \<open>
  \<open>num / den\<close> rounded to the nearest integer, ties to the even one: the rounding of
  the exact value that CPython's float formatting performs.
\<close>

definition round_half_even :: "nat \<Rightarrow> nat \<Rightarrow> nat" where
  "round_half_even num den =
     (let q = num div den; r = num mod den
      in if den < 2 * r \<or> (2 * r = den \<and> odd q) then q + 1 else q)"

text \<open>The magnitude \<open>m * 2^e\<close> in hundredths, correctly rounded.\<close>

definition hundredths :: "nat \<Rightarrow> int \<Rightarrow> nat" where
  "hundredths m e =
     (if 0 \<le> e then m * 2 ^ nat e * 100 else round_half_even (m * 100) (2 ^ nat (- e)))"

text \<open>\<open>f"{x:.2f}"\<close>.\<close>

fun format_2f :: "pyfloat \<Rightarrow> string" where
  "format_2f NaN = ''nan''"
| "format_2f (Infinity s) = (if s then ''-inf'' else ''inf'')"
| "format_2f (Finite s m e) =
     (let h = hundredths m e
      in (if s then ''-'' else '''') @ dec_digits (h div 100) @ ''.'' @
         [digit_char (h mod 100 div 10), digit_char (h mod 10)])"

text \<open>A string that ends in a point and exactly two decimal digits, after at least one
  other character.\<close>

definition is_digit :: "char \<Rightarrow> bool" where
  "is_digit c = (c \<in> set ''0123456789'')"

definition two_fraction_digits :: "string \<Rightarrow> bool" where
  "two_fraction_digits str =
     (case rev str of
        d2 # d1 # p # rest \<Rightarrow> is_digit d2 \<and> is_digit d1 \<and> p = CHR ''.'' \<and> rest \<noteq> []
      | _ \<Rightarrow> False)"

section \<open>The price source: \<open>StockDataManager\<close>\<close>

text \<open>
  Exceptions are values. \<open>except Exception\<close> catches the subclasses of \<open>Exception\<close>;
  \<open>KeyboardInterrupt\<close>, \<open>SystemExit\<close> and \<open>asyncio.CancelledError\<close> derive from
  \<open>BaseException\<close> only and pass through it.
\<close>

datatype py_exc =
    ConnectionError | KeyError | IndexError | TypeError | ValueError | RuntimeError
  | WebSocketDisconnect
  | KeyboardInterrupt | SystemExit | CancelledError

fun is_Exception :: "py_exc \<Rightarrow> bool" where
  "is_Exception KeyboardInterrupt = False"
| "is_Exception SystemExit = False"
| "is_Exception CancelledError = False"
| "is_Exception e = True"

text \<open>
  What the third-party lookup \<open>yf.Ticker("BELRISE.NS").history(period="1d")\<close> answers is
  an input of the model: it raises, or it returns a data frame. A data frame is its
  columns by name, each a list of cells; a cell is a number or something \<open>float()\<close>
  rejects.
\<close>

datatype cell = Num pyfloat | NonNumeric

type_synonym dataframe = "(string \<times> cell list) list"

datatype history_outcome = HistoryRaises py_exc | History dataframe

text \<open>\<open>data.empty\<close>: an axis of the frame has length zero.\<close>

fun df_empty :: "dataframe \<Rightarrow> bool" where
  "df_empty [] = True"
| "df_empty ((name, cells) # cols) = (cells = [])"

record StockDataManager =
  current_price :: "pyfloat option"
  last_update :: "pyfloat option"

text \<open>\<open>StockDataManager.__init__\<close>, run once for the module-level \<open>stock_manager\<close>.\<close>

definition StockDataManager_init :: StockDataManager where
  "StockDataManager_init = \<lparr>current_price = None, last_update = None\<rparr>"

text \<open>How a call ends: it returns a value or raises, and leaves a manager state.\<close>

datatype 'a outcome = Returns 'a StockDataManager | Raises py_exc StockDataManager

text \<open>
  Lines 29 to 32 of \<open>get_stock_price\<close>, up to the value of \<open>price\<close>: \<open>Inr None\<close> when
  \<open>data.empty\<close> holds, \<open>Inl\<close> the exception raised by the lookup, by \<open>data['Close']\<close>
  (no such column), by \<open>[-1]\<close> (no row) or by \<open>float\<close>.
\<close>

definition price_lookup :: "history_outcome \<Rightarrow> py_exc + pyfloat option" where
  "price_lookup h =
     (case h of
        HistoryRaises e \<Rightarrow> Inl e
      | History data \<Rightarrow>
          if df_empty data then Inr None
          else (case map_of data ''Close'' of
                  None \<Rightarrow> Inl KeyError
                | Some cells \<Rightarrow>
                    (case cells of
                       [] \<Rightarrow> Inl IndexError
                     | _ # _ \<Rightarrow>
                         (case last cells of
                            NonNumeric \<Rightarrow> Inl TypeError
                          | Num price \<Rightarrow> Inr (Some price)))))"

text \<open>
  \<open>get_stock_price\<close>: \<open>now\<close> is the reading of \<open>time.time()\<close>. The handler logs and falls
  through to \<open>return None\<close>; logging changes nothing the program reads.
\<close>

definition get_stock_price ::
  "history_outcome \<Rightarrow> pyfloat \<Rightarrow> StockDataManager \<Rightarrow> (pyfloat option) outcome" where
  "get_stock_price h now s =
     (case price_lookup h of
        Inl e \<Rightarrow> if is_Exception e then Returns None s else Raises e s
      | Inr None \<Rightarrow> Returns None s
      | Inr (Some price) \<Rightarrow>
          Returns (Some price) (s\<lparr>current_price := Some price, last_update := Some now\<rparr>))"

section \<open>The broadcast loop: \<open>websocket_endpoint\<close>\<close>

text \<open>
  One iteration of the loop meets four answers of the environment: the lookup's, the
  clock's, that of \<open>websocket.send_text\<close> (\<open>None\<close>: sent; \<open>Some e\<close>: it raised \<open>e\<close>, as it
  does with \<open>WebSocketDisconnect\<close> once the client has gone) and that of
  \<open>asyncio.sleep\<close> (\<open>Some CancelledError\<close> when the task is cancelled).
\<close>

record tick_env =
  te_history :: history_outcome
  te_clock :: pyfloat
  te_send :: "py_exc option"
  te_sleep :: "py_exc option"

text \<open>What the loop does, in order: a call of the adapter, a frame pushed to the client,
  a send that raised, a completed sleep.\<close>

datatype event = EvFetch | EvSend string | EvSendFailed | EvSleep

text \<open>
  How the endpoint stands after the iterations given: still looping, or ended by
  \<open>except WebSocketDisconnect\<close>, by \<open>except Exception\<close>, or by an exception that neither
  clause catches.
\<close>

datatype loop_end = StillOpen | Disconnected | Errored py_exc | Escaped py_exc

definition handler :: "py_exc \<Rightarrow> loop_end" where
  "handler e =
     (if e = WebSocketDisconnect then Disconnected
      else if is_Exception e then Errored e
      else Escaped e)"

text \<open>Lines 51 to 59: the text handed to \<open>send_text\<close>.\<close>

definition frame_for :: "pyfloat option \<Rightarrow> StockDataManager \<Rightarrow> string" where
  "frame_for price s =
     (case price of
        Some p \<Rightarrow> format_2f p
      | None \<Rightarrow>
          (case current_price s of
             Some l \<Rightarrow> if py_truthy l then format_2f l else ''0.00''
           | None \<Rightarrow> ''0.00''))"

text \<open>One iteration of \<open>while True\<close>.\<close>

definition tick :: "tick_env \<Rightarrow> StockDataManager \<Rightarrow> event list \<times> StockDataManager \<times> loop_end" where
  "tick t s =
     (case get_stock_price (te_history t) (te_clock t) s of
        Raises e s' \<Rightarrow> ([EvFetch], s', handler e)
      | Returns price s' \<Rightarrow>
          (case te_send t of
             Some e \<Rightarrow> ([EvFetch, EvSendFailed], s', handler e)
           | None \<Rightarrow>
               (case te_sleep t of
                  Some e \<Rightarrow> ([EvFetch, EvSend (frame_for price s')], s', handler e)
                | None \<Rightarrow> ([EvFetch, EvSend (frame_for price s'), EvSleep], s', StillOpen))))"

text \<open>
  The \<open>try\<close> block of \<open>websocket_endpoint\<close>, entered once \<open>websocket.accept()\<close> has
  returned: the loop over the iterations the environment has answered so far. The list
  is a finite prefix of the connection's life: \<open>StillOpen\<close> says the loop has not ended
  within it.
\<close>

fun websocket_endpoint ::
  "tick_env list \<Rightarrow> StockDataManager \<Rightarrow> event list \<times> StockDataManager \<times> loop_end" where
  "websocket_endpoint [] s = ([], s, StillOpen)"
| "websocket_endpoint (t # ts) s =
     (case tick t s of
        (evs, s', StillOpen) \<Rightarrow>
          (case websocket_endpoint ts s' of (evs', s'', fin) \<Rightarrow> (evs @ evs', s'', fin))
      | (evs, s', fin) \<Rightarrow> (evs, s', fin))"

definition frames :: "event list \<Rightarrow> string list" where
  "frames evs = concat (map (\<lambda>ev. case ev of EvSend f \<Rightarrow> [f] | _ \<Rightarrow> []) evs)"

section \<open>The status check: \<open>health_check\<close>\<close>

text \<open>The values of the dictionary that \<open>health_check\<close> returns.\<close>

datatype py_value = PyStr string | PyFloat pyfloat | PyNone

definition py_optional :: "pyfloat option \<Rightarrow> py_value" where
  "py_optional x = (case x of None \<Rightarrow> PyNone | Some v \<Rightarrow> PyFloat v)"

text \<open>\<open>health_check\<close> reads the module-level \<open>stock_manager\<close>; it returns the dictionary
  (its items in order) and the manager as it leaves it.\<close>

definition health_check :: "StockDataManager \<Rightarrow> (string \<times> py_value) list \<times> StockDataManager" where
  "health_check s =
     ([(''status'', PyStr ''healthy''),
       (''last_price'', py_optional (current_price s)),
       (''last_update'', py_optional (last_update s))], s)"

section \<open>The process: one \<open>stock_manager\<close> for every request\<close>

text \<open>
  \<open>stock_manager = StockDataManager()\<close> is a module-level statement: it runs once, and
  every call of \<open>websocket_endpoint\<close> and of \<open>health_check\<close> works on that one object.
  Between the call of \<open>get_stock_price\<close> and the read of \<open>stock_manager.current_price\<close>
  the coroutine does not suspend, so an iteration's fetch and choice of frame are one
  step also when several connections are open; a run of the process is a sequence of
  such steps.
\<close>

fun state_of :: "'a outcome \<Rightarrow> StockDataManager" where
  "state_of (Returns r s) = s"
| "state_of (Raises e s) = s"

datatype operation =
    OpGetStockPrice history_outcome pyfloat
  | OpTick tick_env
  | OpLoop "tick_env list"
  | OpHealthCheck

fun perform :: "operation \<Rightarrow> StockDataManager \<Rightarrow> StockDataManager" where
  "perform (OpGetStockPrice h now) s = state_of (get_stock_price h now s)"
| "perform (OpTick t) s = fst (snd (tick t s))"
| "perform (OpLoop ts) s = fst (snd (websocket_endpoint ts s))"
| "perform OpHealthCheck s = snd (health_check s)"

fun perform_all :: "operation list \<Rightarrow> StockDataManager \<Rightarrow> StockDataManager" where
  "perform_all [] s = s"
| "perform_all (op # ops) s = perform_all ops (perform op s)"

definition price_time_inv :: "StockDataManager \<Rightarrow> bool" where
  "price_time_inv s = ((current_price s = None) = (last_update s = None))"

text \<open>
  Several connections. Each call of \<open>websocket_endpoint\<close> is a task of its own on the
  one event loop, and all of them work on the one \<open>stock_manager\<close>. A task gives way to
  the others only at \<open>await websocket.send_text\<close> and \<open>await asyncio.sleep(3)\<close>, after
  its frame is chosen, so the iterations of the open connections interleave as whole
  steps, in an order the environment chooses: a schedule is a list of steps, each naming
  the connection whose loop runs its next iteration and what that iteration meets. The
  loop of a connection that has ended runs no more iterations. A connection opened after
  another has ended is the schedule in which all steps of the first come first.
\<close>

text \<open>What an iteration's call of the adapter fetched, \<open>None\<close> when the fetch failed.\<close>

definition fetched :: "tick_env \<Rightarrow> StockDataManager \<Rightarrow> pyfloat option" where
  "fetched t s =
     (case get_stock_price (te_history t) (te_clock t) s of
        Returns r s' \<Rightarrow> r
      | Raises e s' \<Rightarrow> None)"

text \<open>The log of a run: for each iteration run, its connection, what it fetched and its
  events.\<close>

type_synonym step_log = "nat \<times> pyfloat option \<times> event list"

fun server_run ::
  "(nat \<times> tick_env) list \<Rightarrow> StockDataManager \<Rightarrow> (nat \<Rightarrow> loop_end) \<Rightarrow>
     step_log list \<times> StockDataManager \<times> (nat \<Rightarrow> loop_end)" where
  "server_run [] s st = ([], s, st)"
| "server_run ((c, t) # rest) s st =
     (if st c = StillOpen then
        (case tick t s of
           (evs, s', fin) \<Rightarrow>
             (case server_run rest s' (st(c := fin)) of
                (log, s'', st') \<Rightarrow> ((c, fetched t s, evs) # log, s'', st')))
      else server_run rest s st)"

text \<open>No loop has ended.\<close>

definition all_open :: "nat \<Rightarrow> loop_end" where
  "all_open c = StillOpen"

text \<open>The frames pushed on connection \<open>c\<close>, in order.\<close>

definition frames_on :: "nat \<Rightarrow> step_log list \<Rightarrow> string list" where
  "frames_on c log =
     concat (map (\<lambda>(c', r, evs). if c' = c then frames evs else []) log)"

text \<open>The price fetched last in a run, by whichever connection.\<close>

fun last_fetched :: "step_log list \<Rightarrow> pyfloat option" where
  "last_fetched [] = None"
| "last_fetched ((c, r, evs) # log) =
     (case last_fetched log of Some p \<Rightarrow> Some p | None \<Rightarrow> r)"

text \<open>
  What the lookup raises, when it raises, is an error: an instance of \<open>Exception\<close>, as
  every lookup, network and parse error is.
\<close>

definition raises_only_errors :: "history_outcome \<Rightarrow> bool" where
  "raises_only_errors h =
     (case h of HistoryRaises e \<Rightarrow> is_Exception e | History data \<Rightarrow> True)"

section \<open>Concrete inputs\<close>

text \<open>\<open>102.5\<close>, \<open>0.0\<close>, \<open>-0.0\<close>, \<open>-1.0\<close>, \<open>200.0\<close>, \<open>300.0\<close> and a clock reading.\<close>

definition price_102_5 :: pyfloat where
  "price_102_5 = Finite False 205 (- 1)"

definition pos_zero :: pyfloat where
  "pos_zero = Finite False 0 0"

definition neg_zero :: pyfloat where
  "neg_zero = Finite True 0 0"

definition minus_one :: pyfloat where
  "minus_one = Finite True 1 0"

definition price_200 :: pyfloat where
  "price_200 = Finite False 200 0"

definition price_300 :: pyfloat where
  "price_300 = Finite False 300 0"

definition clock0 :: pyfloat where
  "clock0 = Finite False 1762214400 0"

text \<open>A one-day history whose last close is \<open>p\<close>.\<close>

definition history_close :: "pyfloat \<Rightarrow> history_outcome" where
  "history_close p = History [(''Open'', [Num p]), (''Close'', [Num p])]"

text \<open>An iteration whose fetch yields \<open>p\<close> and whose send and sleep complete.\<close>

definition tick_ok :: "pyfloat \<Rightarrow> tick_env" where
  "tick_ok p = \<lparr>te_history = history_close p, te_clock = clock0, te_send = None, te_sleep = None\<rparr>"

text \<open>An iteration whose lookup raises, with the client still there.\<close>

definition tick_fetch_fails :: tick_env where
  "tick_fetch_fails =
     \<lparr>te_history = HistoryRaises ConnectionError, te_clock = clock0, te_send = None,
      te_sleep = None\<rparr>"

text \<open>An iteration whose send finds the client gone.\<close>

definition tick_client_gone :: "history_outcome \<Rightarrow> tick_env" where
  "tick_client_gone h =
     \<lparr>te_history = h, te_clock = clock0, te_send = Some WebSocketDisconnect, te_sleep = None\<rparr>"

text \<open>The manager after a fetch of \<open>p\<close> at \<open>clock0\<close>.\<close>

definition manager_with :: "pyfloat \<Rightarrow> StockDataManager" where
  "manager_with p = \<lparr>current_price = Some p, last_update = Some clock0\<rparr>"

text \<open>A history that has no \<open>Close\<close> column: \<open>data['Close']\<close> raises \<open>KeyError\<close>.\<close>

definition history_without_close :: history_outcome where
  "history_without_close = History [(''Open'', [Num price_102_5])]"

section \<open>Facts about the adapter and the loop\<close>

lemma get_stock_price_None:
  "get_stock_price h now s = Returns None s' \<Longrightarrow> s' = s"
  by (auto simp: get_stock_price_def split: sum.splits option.splits if_splits)

lemma get_stock_price_Some:
  "get_stock_price h now s = Returns (Some p) s' \<Longrightarrow>
     price_lookup h = Inr (Some p) \<and>
     s' = s\<lparr>current_price := Some p, last_update := Some now\<rparr>"
  by (auto simp: get_stock_price_def split: sum.splits option.splits if_splits)

lemma get_stock_price_Raises:
  "get_stock_price h now s = Raises e s' \<Longrightarrow>
     price_lookup h = Inl e \<and> \<not> is_Exception e \<and> s' = s"
  by (auto simp: get_stock_price_def split: sum.splits option.splits if_splits)

lemma price_lookup_Some:
  "price_lookup h = Inr (Some p) \<Longrightarrow>
     \<exists>data cells. h = History data \<and> \<not> df_empty data \<and>
        map_of data ''Close'' = Some cells \<and> cells \<noteq> [] \<and> last cells = Num p"
  by (auto simp: price_lookup_def
      split: history_outcome.splits if_splits option.splits list.splits cell.splits)

lemma handler_not_open: "handler e \<noteq> StillOpen"
  by (simp add: handler_def)

lemma ws_append:
  "websocket_endpoint (xs @ ys) s =
     (case websocket_endpoint xs s of
        (evs, s', StillOpen) \<Rightarrow>
          (case websocket_endpoint ys s' of (evs', s'', fin) \<Rightarrow> (evs @ evs', s'', fin))
      | (evs, s', fin) \<Rightarrow> (evs, s', fin))"
proof (induction xs arbitrary: s)
  case Nil
  show ?case by (simp split: prod.splits)
next
  case (Cons t ts)
  show ?case
    by (simp add: Cons.IH split: prod.splits loop_end.splits)
qed

lemma lookup_close: "price_lookup (history_close p) = Inr (Some p)"
  by (simp add: price_lookup_def history_close_def)

lemma fetch_close:
  "get_stock_price (history_close p) now s =
     Returns (Some p) (s\<lparr>current_price := Some p, last_update := Some now\<rparr>)"
  by (simp add: get_stock_price_def lookup_close)

lemma fetch_raises_error:
  "get_stock_price (HistoryRaises ConnectionError) now s = Returns None s"
  by (simp add: get_stock_price_def price_lookup_def)

lemma tick_ok_eq:
  "tick (tick_ok p) s =
     ([EvFetch, EvSend (format_2f p), EvSleep],
      s\<lparr>current_price := Some p, last_update := Some clock0\<rparr>, StillOpen)"
  by (simp add: tick_def tick_ok_def fetch_close frame_for_def)

lemma tick_fetch_fails_eq:
  "tick tick_fetch_fails s = ([EvFetch, EvSend (frame_for None s), EvSleep], s, StillOpen)"
  by (simp add: tick_def tick_fetch_fails_def fetch_raises_error)

lemma tick_client_gone_eq:
  "tick (tick_client_gone (history_close p)) s =
     ([EvFetch, EvSendFailed], s\<lparr>current_price := Some p, last_update := Some clock0\<rparr>,
      Disconnected)"
  by (simp add: tick_def tick_client_gone_def fetch_close handler_def)

subsection \<open>Formatting\<close>

lemma format_102_5: "format_2f price_102_5 = ''102.50''"
  by (simp add: price_102_5_def hundredths_def round_half_even_def dec_digits.simps
      digit_char_def)

lemma format_pos_zero: "format_2f pos_zero = ''0.00''"
  by (simp add: pos_zero_def hundredths_def dec_digits.simps digit_char_def)

lemma format_neg_zero: "format_2f neg_zero = ''-0.00''"
  by (simp add: neg_zero_def hundredths_def dec_digits.simps digit_char_def)

lemma dec_digits_not_Nil: "dec_digits n \<noteq> []"
  by (subst dec_digits.simps) simp

lemma is_digit_digit_char: "is_digit (digit_char d)"
  unfolding is_digit_def digit_char_def by (rule nth_mem) simp

lemma two_fraction_digits_format:
  "is_finite P \<Longrightarrow> two_fraction_digits (format_2f P)"
  by (cases P)
    (simp_all add: two_fraction_digits_def Let_def is_digit_digit_char dec_digits_not_Nil)

subsection \<open>The invariant, step by step\<close>

lemma tick_inv: "price_time_inv s \<Longrightarrow> price_time_inv (fst (snd (tick t s)))"
  by (auto simp: tick_def get_stock_price_def price_time_inv_def
      split: sum.splits option.splits)

lemma loop_inv: "price_time_inv s \<Longrightarrow> price_time_inv (fst (snd (websocket_endpoint ts s)))"
proof (induction ts arbitrary: s)
  case Nil
  then show ?case by simp
next
  case (Cons t ts)
  obtain evs s1 fin where T: "tick t s = (evs, s1, fin)"
    by (cases "tick t s") auto
  have I1: "price_time_inv s1"
    using tick_inv [OF Cons.prems, of t] T by simp
  show ?case
  proof (cases fin)
    case StillOpen
    obtain evs' s2 fin' where W: "websocket_endpoint ts s1 = (evs', s2, fin')"
      by (cases "websocket_endpoint ts s1") auto
    have "price_time_inv s2"
      using Cons.IH [OF I1] W by simp
    then show ?thesis using T StillOpen W by simp
  qed (use T I1 in simp_all)
qed

lemma perform_inv: "price_time_inv s \<Longrightarrow> price_time_inv (perform op s)"
proof (cases op)
  case (OpGetStockPrice h now)
  assume "price_time_inv s"
  then show ?thesis using OpGetStockPrice
    by (auto simp: get_stock_price_def price_time_inv_def split: sum.splits option.splits)
next
  case (OpTick t)
  assume "price_time_inv s"
  then show ?thesis using OpTick by (simp add: tick_inv)
next
  case (OpLoop ts)
  assume "price_time_inv s"
  then show ?thesis using OpLoop by (simp add: loop_inv)
next
  case OpHealthCheck
  assume "price_time_inv s"
  then show ?thesis using OpHealthCheck by (simp add: health_check_def)
qed

lemma perform_all_inv: "price_time_inv s \<Longrightarrow> price_time_inv (perform_all ops s)"
  by (induction ops arbitrary: s) (simp_all add: perform_inv)

subsection \<open>One iteration, by what its fetch did\<close>

lemma tick_success_frames:
  "price_lookup (te_history t) = Inr (Some P) \<Longrightarrow> te_send t = None \<Longrightarrow>
     frames (fst (tick t s)) = [format_2f P]"
  by (simp add: tick_def get_stock_price_def frames_def frame_for_def split: option.splits)

lemma tick_failed_frames:
  "get_stock_price (te_history t) (te_clock t) s = Returns None s \<Longrightarrow> te_send t = None \<Longrightarrow>
     frames (fst (tick t s)) = [frame_for None s]"
  by (simp add: tick_def frames_def split: option.splits)

lemma tick_current_price:
  "current_price (fst (snd (tick t s))) =
     (case fetched t s of Some p \<Rightarrow> Some p | None \<Rightarrow> current_price s)"
  by (auto simp: tick_def fetched_def get_stock_price_def
      split: sum.splits option.splits)

subsection \<open>Runs of several connections\<close>

lemma format_200: "format_2f price_200 = ''200.00''"
  by (simp add: price_200_def hundredths_def dec_digits.simps digit_char_def)

lemma format_300: "format_2f price_300 = ''300.00''"
  by (simp add: price_300_def hundredths_def dec_digits.simps digit_char_def)

lemma server_run_append:
  "server_run (xs @ ys) s st =
     (case server_run xs s st of
        (log, s', st') \<Rightarrow>
          (case server_run ys s' st' of (log', s'', st'') \<Rightarrow> (log @ log', s'', st'')))"
proof (induction xs arbitrary: s st)
  case Nil
  show ?case by (simp split: prod.splits)
next
  case (Cons x xs)
  obtain c t where x: "x = (c, t)" by (cases x) auto
  show ?case
  proof (cases "st c = StillOpen")
    case False
    then show ?thesis by (simp add: x Cons.IH)
  next
    case True
    obtain evs s1 fin where T: "tick t s = (evs, s1, fin)"
      by (cases "tick t s") auto
    obtain log1 s2 st2 where R: "server_run xs s1 (st(c := fin)) = (log1, s2, st2)"
      by (cases "server_run xs s1 (st(c := fin))") auto
    obtain log2 s3 st3 where Q: "server_run ys s2 st2 = (log2, s3, st3)"
      by (cases "server_run ys s2 st2") auto
    have "server_run (xs @ ys) s1 (st(c := fin)) =
            (case server_run xs s1 (st(c := fin)) of
               (log, s', st') \<Rightarrow>
                 (case server_run ys s' st' of (log', s'', st'') \<Rightarrow> (log @ log', s'', st'')))"
      by (rule Cons.IH)
    then have "server_run (xs @ ys) s1 (st(c := fin)) = (log1 @ log2, s3, st3)"
      by (simp only: R Q prod.case)
    then show ?thesis
      using True T R Q by (simp add: x)
  qed
qed

lemma last_fetched_append:
  "last_fetched (xs @ ys) =
     (case last_fetched ys of Some p \<Rightarrow> Some p | None \<Rightarrow> last_fetched xs)"
  by (induction xs) (auto split: option.splits)

lemma frames_on_append: "frames_on c (xs @ ys) = frames_on c xs @ frames_on c ys"
  by (simp add: frames_on_def)

text \<open>The manager holds the price fetched last by any connection, or what it held before
  the run when none fetched one.\<close>

lemma server_run_current_price:
  "server_run sched s st = (log, s', st') \<Longrightarrow>
     current_price s' = (case last_fetched log of Some p \<Rightarrow> Some p | None \<Rightarrow> current_price s)"
proof (induction sched arbitrary: s st log s' st')
  case Nil
  then show ?case by simp
next
  case (Cons x sched)
  obtain c t where x: "x = (c, t)" by (cases x) auto
  show ?case
  proof (cases "st c = StillOpen")
    case False
    with Cons.prems x have "server_run sched s st = (log, s', st')" by simp
    from Cons.IH [OF this] show ?thesis .
  next
    case True
    obtain evs s1 fin where T: "tick t s = (evs, s1, fin)"
      by (cases "tick t s") auto
    obtain log1 s2 st2 where R: "server_run sched s1 (st(c := fin)) = (log1, s2, st2)"
      by (cases "server_run sched s1 (st(c := fin))") auto
    from Cons.prems x True T R
    have L: "log = (c, fetched t s, evs) # log1" and S: "s' = s2" by simp_all
    have P: "current_price s1 = (case fetched t s of Some p \<Rightarrow> Some p | None \<Rightarrow> current_price s)"
      using tick_current_price [of t s] T by simp
    from Cons.IH [OF R] P L S show ?thesis
      by (simp split: option.splits)
  qed
qed

text \<open>A run in which one connection alone takes steps is that connection's loop.\<close>

lemma server_run_ended:
  "st c \<noteq> StillOpen \<Longrightarrow> server_run (map (Pair c) ts) s st = ([], s, st)"
  by (induction ts) simp_all

lemma server_run_single:
  "st c = StillOpen \<Longrightarrow>
     concat (map (\<lambda>(c', r, evs). evs) (fst (server_run (map (Pair c) ts) s st)))
       = fst (websocket_endpoint ts s)
     \<and> fst (snd (server_run (map (Pair c) ts) s st)) = fst (snd (websocket_endpoint ts s))"
proof (induction ts arbitrary: s st)
  case Nil
  then show ?case by simp
next
  case (Cons t ts)
  obtain evs s1 fin where T: "tick t s = (evs, s1, fin)"
    by (cases "tick t s") auto
  obtain log1 s2 st2 where R: "server_run (map (Pair c) ts) s1 (st(c := fin)) = (log1, s2, st2)"
    by (cases "server_run (map (Pair c) ts) s1 (st(c := fin))") auto
  have U: "server_run (map (Pair c) (t # ts)) s st = ((c, fetched t s, evs) # log1, s2, st2)"
    using Cons.prems T R by simp
  show ?case
  proof (cases "fin = StillOpen")
    case True
    obtain evs' s2' fin' where W: "websocket_endpoint ts s1 = (evs', s2', fin')"
      by (cases "websocket_endpoint ts s1") auto
    have "(st(c := fin)) c = StillOpen" using True by simp
    then have "concat (map (\<lambda>(c', r, evs). evs)
                 (fst (server_run (map (Pair c) ts) s1 (st(c := fin)))))
                 = fst (websocket_endpoint ts s1)
               \<and> fst (snd (server_run (map (Pair c) ts) s1 (st(c := fin))))
                 = fst (snd (websocket_endpoint ts s1))"
      by (rule Cons.IH)
    then have "concat (map (\<lambda>(c', r, evs). evs) log1) = evs' \<and> s2 = s2'"
      by (simp only: R W fst_conv snd_conv)
    then show ?thesis
      using T True W unfolding U by simp
  next
    case False
    then have "(st(c := fin)) c \<noteq> StillOpen" by simp
    then have "server_run (map (Pair c) ts) s1 (st(c := fin)) = ([], s1, st(c := fin))"
      by (rule server_run_ended)
    with R have "log1 = []" "s2 = s1" by simp_all
    then show ?thesis
      using T False unfolding U by (cases fin) simp_all
  qed
qed

section \<open>The claims\<close>

text \<open>
  C1, as the code has it. The loops of all connections work on the one module-level
  \<open>stock_manager\<close>: the last known price is empty when the process starts, not when a
  loop starts, it is kept when a loop ends, and at any moment it is the price fetched
  last by whichever connection. In an iteration of an open connection whose send goes
  through: when its own fetch succeeds with \<open>P\<close>, the frame pushed is \<open>P\<close> formatted,
  whatever the other connections fetched; when its own fetch fails, the frame is the
  price fetched last by any connection, formatted (for a price that is not a zero), and
  \<open>"0.00"\<close> when no connection has fetched a price yet.
\<close>

theorem connections_share_last_known_price:
  assumes "server_run pre StockDataManager_init all_open = (log, s, st)"
      and "st c = StillOpen"
      and "te_send t = None"
  shows "current_price s = last_fetched log
       \<and> (price_lookup (te_history t) = Inr (Some P) \<longrightarrow>
            frames_on c (fst (server_run (pre @ [(c, t)]) StockDataManager_init all_open))
              = frames_on c log @ [format_2f P])
       \<and> (get_stock_price (te_history t) (te_clock t) s = Returns None s
            \<and> last_fetched log = Some L \<and> py_truthy L \<longrightarrow>
            frames_on c (fst (server_run (pre @ [(c, t)]) StockDataManager_init all_open))
              = frames_on c log @ [format_2f L])
       \<and> (get_stock_price (te_history t) (te_clock t) s = Returns None s
            \<and> last_fetched log = None \<longrightarrow>
            frames_on c (fst (server_run (pre @ [(c, t)]) StockDataManager_init all_open))
              = frames_on c log @ [''0.00''])"
proof -
  have price: "current_price s = last_fetched log"
    using server_run_current_price [OF assms(1)]
    by (simp add: StockDataManager_init_def split: option.splits)
  have step: "frames_on c (fst (server_run (pre @ [(c, t)]) StockDataManager_init all_open))
                = frames_on c log @ frames (fst (tick t s))"
    using assms(1,2)
    by (simp add: server_run_append frames_on_def split: prod.splits)
  have "price_lookup (te_history t) = Inr (Some P) \<longrightarrow>
          frames (fst (tick t s)) = [format_2f P]"
    using assms(3) by (simp add: tick_success_frames)
  moreover have "get_stock_price (te_history t) (te_clock t) s = Returns None s
            \<and> last_fetched log = Some L \<and> py_truthy L \<longrightarrow>
          frames (fst (tick t s)) = [format_2f L]"
    using assms(3) price by (simp add: tick_failed_frames frame_for_def)
  moreover have "get_stock_price (te_history t) (te_clock t) s = Returns None s
            \<and> last_fetched log = None \<longrightarrow>
          frames (fst (tick t s)) = [''0.00'']"
    using assms(3) price by (simp add: tick_failed_frames frame_for_def)
  ultimately show ?thesis
    using price step by simp
qed

theorem connections_share_witness:
  "server_run [(0, tick_ok price_102_5), (1, tick_ok price_200)] StockDataManager_init all_open
     = ([(0, Some price_102_5, [EvFetch, EvSend ''102.50'', EvSleep]),
         (1, Some price_200, [EvFetch, EvSend ''200.00'', EvSleep])],
        manager_with price_200, all_open(0 := StillOpen, 1 := StillOpen))
   \<and> frames_on 0
        (fst (server_run ([(0, tick_ok price_102_5), (1, tick_ok price_200)]
                @ [(0, tick_fetch_fails)]) StockDataManager_init all_open))
       = [''102.50'', ''200.00'']
   \<and> frames_on 1
        (fst (server_run ([(0, tick_ok price_102_5), (1, tick_ok price_200)]
                @ [(1, tick_ok price_300)]) StockDataManager_init all_open))
       = [''200.00'', ''300.00'']
   \<and> frames_on 0 (fst (server_run ([] @ [(0, tick_fetch_fails)]) StockDataManager_init all_open))
       = [''0.00'']"
proof -
  let ?pre = "[(0::nat, tick_ok price_102_5), (1, tick_ok price_200)]"
  let ?log = "[(0::nat, Some price_102_5, [EvFetch, EvSend ''102.50'', EvSleep]),
               (1, Some price_200, [EvFetch, EvSend ''200.00'', EvSleep])]"
  let ?st = "all_open(0 := StillOpen, 1 := StillOpen)"
  have f: "fetched (tick_ok p) s = Some p" for p s
    by (simp add: fetched_def tick_ok_def fetch_close)
  have a: "server_run ?pre StockDataManager_init all_open = (?log, manager_with price_200, ?st)"
    by (simp add: tick_ok_eq f format_102_5 format_200 manager_with_def
        StockDataManager_init_def all_open_def)
  have b: "server_run [] StockDataManager_init all_open = ([], StockDataManager_init, all_open)"
    by simp
  have o: "?st 0 = StillOpen" "?st 1 = StillOpen" "all_open 0 = StillOpen"
    by (simp_all add: all_open_def)
  have e: "te_send tick_fetch_fails = None" "te_send (tick_ok price_300) = None"
    by (simp_all add: tick_fetch_fails_def tick_ok_def)
  have g: "get_stock_price (te_history tick_fetch_fails) (te_clock tick_fetch_fails) s
             = Returns None s" for s
    by (simp add: tick_fetch_fails_def fetch_raises_error)
  have l: "price_lookup (te_history (tick_ok price_300)) = Inr (Some price_300)"
    by (simp add: tick_ok_def lookup_close)
  have t: "py_truthy price_200"
    by (simp add: price_200_def)
  have fl: "frames_on 0 ?log = [''102.50'']" "frames_on 1 ?log = [''200.00'']"
    "last_fetched ?log = Some price_200" "frames_on 0 [] = []" "last_fetched [] = None"
    by (simp_all add: frames_on_def frames_def)
  show ?thesis
    using connections_share_last_known_price [OF a o(1) e(1), of price_200 price_200]
      connections_share_last_known_price [OF a o(2) e(2), of price_300 price_200]
      connections_share_last_known_price [OF b o(3) e(1), of price_200 price_200]
      a g l t fl format_200 format_300
    by (simp del: server_run.simps)
qed

text \<open>
  C1 as stated fails, for a later connection and for an overlapping one. Connection 0
  fetches \<open>102.5\<close> and finds its client gone; connection 1, opened afterwards, whose own
  fetch fails is pushed \<open>"102.50"\<close>, and \<open>"0.00"\<close> had the fetch of connection 0 failed.
  With both connections open, connection 0 fetches \<open>102.5\<close>, then connection 1 fetches
  \<open>200.0\<close>, then the fetch of connection 0 fails: connection 0 is pushed \<open>"200.00"\<close>, and
  \<open>"300.00"\<close> had connection 1 fetched \<open>300.0\<close>.
\<close>

theorem connections_interfere_counterexample:
  "frames_on 1 (fst (server_run
       [(0, tick_client_gone (history_close price_102_5)), (1, tick_fetch_fails)]
       StockDataManager_init all_open)) = [''102.50'']
   \<and> frames_on 1 (fst (server_run
       [(0, tick_client_gone (HistoryRaises ConnectionError)), (1, tick_fetch_fails)]
       StockDataManager_init all_open)) = [''0.00'']
   \<and> frames_on 0 (fst (server_run
       [(0, tick_ok price_102_5), (1, tick_ok price_200), (0, tick_fetch_fails)]
       StockDataManager_init all_open)) = [''102.50'', ''200.00'']
   \<and> frames_on 0 (fst (server_run
       [(0, tick_ok price_102_5), (1, tick_ok price_300), (0, tick_fetch_fails)]
       StockDataManager_init all_open)) = [''102.50'', ''300.00'']"
proof -
  have g: "tick (tick_client_gone (HistoryRaises ConnectionError)) s
             = ([EvFetch, EvSendFailed], s, Disconnected)" for s
    by (simp add: tick_def tick_client_gone_def fetch_raises_error handler_def)
  have t200: "frame_for None (s\<lparr>current_price := Some price_200, last_update := u\<rparr>)
                = ''200.00''" for s u
    by (simp add: frame_for_def format_200) (simp add: price_200_def)
  have t300: "frame_for None (s\<lparr>current_price := Some price_300, last_update := u\<rparr>)
                = ''300.00''" for s u
    by (simp add: frame_for_def format_300) (simp add: price_300_def)
  have t102: "frame_for None (s\<lparr>current_price := Some price_102_5, last_update := u\<rparr>)
                = ''102.50''" for s u
    by (simp add: frame_for_def format_102_5) (simp add: price_102_5_def)
  have t0: "frame_for None StockDataManager_init = ''0.00''"
    by (simp add: frame_for_def StockDataManager_init_def)
  show ?thesis
    by (simp add: tick_ok_eq tick_client_gone_eq tick_fetch_fails_eq g t200 t300 t102 t0
        all_open_def frames_on_def frames_def format_102_5 format_200 format_300)
qed

text \<open>
  C2. In an iteration of the broadcast loop whose fetch succeeds with a price \<open>P\<close>, the
  manager's \<open>current_price\<close> (the last known price) becomes \<open>P\<close>, and the frame pushed
  to the client, when the send goes through, is \<open>P\<close> formatted by \<open>.2f\<close>; for a finite
  \<open>P\<close> that text ends in a point and exactly two digits. This holds for every \<open>P\<close>, so
  for every \<open>P > 0\<close>.
\<close>

theorem successful_tick_pushes_formatted_price:
  assumes "get_stock_price (te_history t) (te_clock t) s = Returns (Some P) s'"
  shows "current_price (fst (snd (tick t s))) = Some P
         \<and> (te_send t = None \<longrightarrow> frames (fst (tick t s)) = [format_2f P])
         \<and> (is_finite P \<longrightarrow> two_fraction_digits (format_2f P))"
proof -
  from assms have s': "s' = s\<lparr>current_price := Some P, last_update := Some (te_clock t)\<rparr>"
    by (simp add: get_stock_price_Some)
  have "current_price (fst (snd (tick t s))) = Some P"
    using assms s' by (simp add: tick_def split: option.splits)
  moreover have "te_send t = None \<longrightarrow> frames (fst (tick t s)) = [format_2f P]"
    using assms by (simp add: tick_def frames_def frame_for_def split: option.splits)
  moreover have "is_finite P \<longrightarrow> two_fraction_digits (format_2f P)"
    by (simp add: two_fraction_digits_format)
  ultimately show ?thesis by simp
qed

theorem successful_tick_witness:
  "get_stock_price (te_history (tick_ok price_102_5)) (te_clock (tick_ok price_102_5))
       StockDataManager_init
     = Returns (Some price_102_5)
         (StockDataManager_init\<lparr>current_price := Some price_102_5, last_update := Some clock0\<rparr>)
   \<and> py_positive price_102_5
   \<and> te_send (tick_ok price_102_5) = None
   \<and> is_finite price_102_5
   \<and> current_price (fst (snd (tick (tick_ok price_102_5) StockDataManager_init)))
       = Some price_102_5
   \<and> frames (fst (tick (tick_ok price_102_5) StockDataManager_init)) = [''102.50'']
   \<and> two_fraction_digits ''102.50''"
proof -
  have h: "get_stock_price (te_history (tick_ok price_102_5)) (te_clock (tick_ok price_102_5))
       StockDataManager_init
     = Returns (Some price_102_5)
         (StockDataManager_init\<lparr>current_price := Some price_102_5, last_update := Some clock0\<rparr>)"
    by (simp add: tick_ok_def fetch_close)
  have e: "te_send (tick_ok price_102_5) = None" "is_finite price_102_5"
    "py_positive price_102_5"
    by (simp_all add: tick_ok_def price_102_5_def)
  show ?thesis
    using successful_tick_pushes_formatted_price [OF h] h e
    by (simp add: format_102_5)
qed

text \<open>
  C3. In an iteration whose fetch fails, a last known price set to \<open>L\<close> is to be pushed
  as \<open>L\<close> formatted by \<open>.2f\<close>. At \<open>L = -0.0\<close> the code does otherwise: a first
  iteration fetches \<open>-0.0\<close> and pushes \<open>"-0.00"\<close>; the fetch of the next one fails with
  the last known price set to \<open>-0.0\<close>, whose format is \<open>"-0.00"\<close>, and the frame pushed
  is \<open>"0.00"\<close>.
\<close>

theorem failed_tick_negative_zero:
  "websocket_endpoint [tick_ok neg_zero, tick_fetch_fails] StockDataManager_init =
     ([EvFetch, EvSend ''-0.00'', EvSleep, EvFetch, EvSend ''0.00'', EvSleep],
      manager_with neg_zero, StillOpen)
   \<and> get_stock_price (te_history tick_fetch_fails) (te_clock tick_fetch_fails)
        (manager_with neg_zero) = Returns None (manager_with neg_zero)
   \<and> current_price (manager_with neg_zero) = Some neg_zero
   \<and> frames (fst (tick tick_fetch_fails (manager_with neg_zero))) = [''0.00'']
   \<and> format_2f neg_zero = ''-0.00''"
proof -
  have a: "tick (tick_ok neg_zero) StockDataManager_init =
             ([EvFetch, EvSend ''-0.00'', EvSleep], manager_with neg_zero, StillOpen)"
    by (simp add: tick_ok_eq format_neg_zero manager_with_def StockDataManager_init_def)
  have b: "tick tick_fetch_fails (manager_with neg_zero) =
             ([EvFetch, EvSend ''0.00'', EvSleep], manager_with neg_zero, StillOpen)"
    by (simp add: tick_fetch_fails_eq frame_for_def manager_with_def neg_zero_def)
  have c: "get_stock_price (te_history tick_fetch_fails) (te_clock tick_fetch_fails)
        (manager_with neg_zero) = Returns None (manager_with neg_zero)"
    by (simp add: tick_fetch_fails_def fetch_raises_error)
  have d: "current_price (manager_with neg_zero) = Some neg_zero"
    by (simp add: manager_with_def)
  show ?thesis
    by (simp add: a b c d frames_def format_neg_zero)
qed

text \<open>
  C4, as the code has it. Whenever the adapter returns, it returns the failure
  indicator \<open>None\<close> or the last entry of the fetched history's \<open>Close\<close> column as a
  float, whatever its sign: the adapter makes no check of the price.
\<close>

theorem adapter_returns_last_close_or_failure:
  assumes "get_stock_price h now s = Returns r s'"
  shows "r = None
       \<or> (\<exists>data cells p. h = History data \<and> \<not> df_empty data \<and>
             map_of data ''Close'' = Some cells \<and> cells \<noteq> [] \<and> last cells = Num p \<and>
             r = Some p)"
proof (cases r)
  case None
  then show ?thesis by simp
next
  case (Some p)
  with assms have "price_lookup h = Inr (Some p)"
    by (simp add: get_stock_price_Some)
  from price_lookup_Some [OF this] Some show ?thesis by blast
qed

theorem adapter_returns_witness:
  "get_stock_price (history_close minus_one) clock0 StockDataManager_init
     = Returns (Some minus_one) (manager_with minus_one)
   \<and> (\<exists>data cells. history_close minus_one = History data \<and> \<not> df_empty data \<and>
         map_of data ''Close'' = Some cells \<and> cells \<noteq> [] \<and> last cells = Num minus_one)"
proof -
  have h: "get_stock_price (history_close minus_one) clock0 StockDataManager_init
     = Returns (Some minus_one) (manager_with minus_one)"
    by (simp add: fetch_close manager_with_def StockDataManager_init_def)
  show ?thesis
    using adapter_returns_last_close_or_failure [OF h] h by simp
qed

text \<open>
  C4 as stated fails: a history whose last close is \<open>0.0\<close>, or \<open>-1.0\<close>, is returned
  as a success.
\<close>

theorem adapter_positive_counterexample:
  "get_stock_price (history_close pos_zero) clock0 StockDataManager_init
     = Returns (Some pos_zero) (manager_with pos_zero)
   \<and> \<not> py_positive pos_zero
   \<and> get_stock_price (history_close minus_one) clock0 StockDataManager_init
     = Returns (Some minus_one) (manager_with minus_one)
   \<and> \<not> py_positive minus_one"
  by (simp add: fetch_close manager_with_def StockDataManager_init_def)
    (simp add: pos_zero_def minus_one_def)

text \<open>
  C5. When whatever the lookup raises is an error (an instance of \<open>Exception\<close>), the
  adapter returns: the caller receives a price or \<open>None\<close>; and every exception raised
  inside the adapter, by the lookup, by \<open>data['Close']\<close>, by \<open>[-1]\<close> or by \<open>float\<close>,
  ends as the result \<open>None\<close> with the manager untouched.
\<close>

theorem adapter_catches_every_error:
  assumes "raises_only_errors h"
  shows "(\<exists>r s'. get_stock_price h now s = Returns r s')
       \<and> (price_lookup h = Inl e \<longrightarrow> get_stock_price h now s = Returns None s)"
  using assms
  by (auto simp: raises_only_errors_def get_stock_price_def price_lookup_def
      split: history_outcome.splits option.splits list.splits cell.splits)

theorem adapter_catches_witness:
  "raises_only_errors (HistoryRaises ConnectionError)
   \<and> get_stock_price (HistoryRaises ConnectionError) clock0 (manager_with price_102_5)
       = Returns None (manager_with price_102_5)
   \<and> raises_only_errors history_without_close
   \<and> price_lookup history_without_close = Inl KeyError
   \<and> get_stock_price history_without_close clock0 (manager_with price_102_5)
       = Returns None (manager_with price_102_5)"
proof -
  have a: "raises_only_errors (HistoryRaises ConnectionError)"
    and b: "raises_only_errors history_without_close"
    by (simp_all add: raises_only_errors_def history_without_close_def)
  have c: "price_lookup (HistoryRaises ConnectionError) = Inl ConnectionError"
    and d: "price_lookup history_without_close = Inl KeyError"
    by (simp_all add: price_lookup_def history_without_close_def)
  show ?thesis
    using adapter_catches_every_error [OF a, of clock0 "manager_with price_102_5" ConnectionError]
      adapter_catches_every_error [OF b, of clock0 "manager_with price_102_5" KeyError]
      a b c d
    by simp
qed

text \<open>
  C6. In an iteration whose fetch fails, the adapter leaves the manager as it was, and
  so does the whole iteration, fallback included: \<open>current_price\<close> and \<open>last_update\<close>
  keep their values.
\<close>

theorem failed_fetch_leaves_state:
  assumes "get_stock_price (te_history t) (te_clock t) s = Returns None s'"
  shows "s' = s \<and> fst (snd (tick t s)) = s"
  using assms get_stock_price_None [OF assms]
  by (simp add: tick_def split: option.splits)

theorem failed_fetch_witness:
  "get_stock_price (te_history tick_fetch_fails) (te_clock tick_fetch_fails)
       (manager_with price_102_5) = Returns None (manager_with price_102_5)
   \<and> fst (snd (tick tick_fetch_fails (manager_with price_102_5))) = manager_with price_102_5"
proof -
  have h: "get_stock_price (te_history tick_fetch_fails) (te_clock tick_fetch_fails)
       (manager_with price_102_5) = Returns None (manager_with price_102_5)"
    by (simp add: tick_fetch_fails_def fetch_raises_error)
  show ?thesis
    using failed_fetch_leaves_state [OF h] h by simp
qed

text \<open>
  C7. The loop learns that the client has gone when \<open>send_text\<close> raises. When a send
  raises while the loop is running, the endpoint ends there: whatever iterations the
  environment would still have answered, the run is the events up to that point, the
  fetch of that iteration and the failed send, with no fetch and no send after them;
  the loop has ended (through one of the \<open>except\<close> clauses, or with the exception
  escaping), and the frames pushed are those pushed before the failure: no frame is
  pushed for the failure.
\<close>

theorem send_failure_ends_loop:
  assumes "websocket_endpoint pre s = (evs, s1, StillOpen)"
      and "get_stock_price (te_history t) (te_clock t) s1 = Returns price s2"
      and "te_send t = Some e"
  shows "websocket_endpoint (pre @ t # rest) s = (evs @ [EvFetch, EvSendFailed], s2, handler e)
       \<and> handler e \<noteq> StillOpen
       \<and> frames (evs @ [EvFetch, EvSendFailed]) = frames evs"
proof -
  have T: "tick t s1 = ([EvFetch, EvSendFailed], s2, handler e)"
    using assms(2,3) by (simp add: tick_def)
  have "websocket_endpoint (t # rest) s1 = ([EvFetch, EvSendFailed], s2, handler e)"
    using T handler_not_open [of e] by (simp split: loop_end.splits)
  then have "websocket_endpoint (pre @ t # rest) s
               = (evs @ [EvFetch, EvSendFailed], s2, handler e)"
    using assms(1) by (simp add: ws_append)
  moreover have "frames (evs @ [EvFetch, EvSendFailed]) = frames evs"
    by (simp add: frames_def)
  ultimately show ?thesis
    using handler_not_open [of e] by simp
qed

theorem send_failure_witness:
  "websocket_endpoint [tick_ok price_102_5] StockDataManager_init
     = ([EvFetch, EvSend ''102.50'', EvSleep], manager_with price_102_5, StillOpen)
   \<and> te_send (tick_client_gone (HistoryRaises ConnectionError)) = Some WebSocketDisconnect
   \<and> websocket_endpoint
       ([tick_ok price_102_5] @ tick_client_gone (HistoryRaises ConnectionError)
          # [tick_ok price_102_5, tick_fetch_fails]) StockDataManager_init
     = ([EvFetch, EvSend ''102.50'', EvSleep, EvFetch, EvSendFailed],
        manager_with price_102_5, Disconnected)"
proof -
  have a: "websocket_endpoint [tick_ok price_102_5] StockDataManager_init
     = ([EvFetch, EvSend ''102.50'', EvSleep], manager_with price_102_5, StillOpen)"
    by (simp add: tick_ok_eq format_102_5 manager_with_def StockDataManager_init_def)
  have b: "get_stock_price (te_history (tick_client_gone (HistoryRaises ConnectionError)))
             (te_clock (tick_client_gone (HistoryRaises ConnectionError)))
             (manager_with price_102_5) = Returns None (manager_with price_102_5)"
    by (simp add: tick_client_gone_def fetch_raises_error)
  have c: "te_send (tick_client_gone (HistoryRaises ConnectionError)) = Some WebSocketDisconnect"
    by (simp add: tick_client_gone_def)
  have d: "handler WebSocketDisconnect = Disconnected"
    by (simp add: handler_def)
  show ?thesis
    using send_failure_ends_loop [OF a b c, of "[tick_ok price_102_5, tick_fetch_fails]"] a c d
    by simp
qed

text \<open>
  C8. The dictionary \<open>health_check\<close> returns has the keys \<open>status\<close>, \<open>last_price\<close> and
  \<open>last_update\<close>: the constant \<open>"healthy"\<close>, the manager's \<open>current_price\<close> and its
  \<open>last_update\<close>, each \<open>None\<close> while unset; the manager is left as it was.
\<close>

theorem health_check_exposes_state:
  "map fst (fst (health_check s)) = [''status'', ''last_price'', ''last_update'']
   \<and> map_of (fst (health_check s)) ''status'' = Some (PyStr ''healthy'')
   \<and> map_of (fst (health_check s)) ''last_price'' = Some (py_optional (current_price s))
   \<and> map_of (fst (health_check s)) ''last_update'' = Some (py_optional (last_update s))
   \<and> snd (health_check s) = s"
  by (simp add: health_check_def)

text \<open>
  C9. Two consecutive iterations whose fetches both yield the same price \<open>P\<close>, with the
  client there, each push the frame \<open>P\<close> formatted by \<open>.2f\<close>, leave \<open>current_price\<close> at
  \<open>P\<close>, and leave the loop running.
\<close>

theorem repeated_success_idempotent:
  assumes "price_lookup (te_history t1) = Inr (Some P)"
      and "price_lookup (te_history t2) = Inr (Some P)"
      and "te_send t1 = None" and "te_sleep t1 = None"
      and "te_send t2 = None" and "te_sleep t2 = None"
  shows "websocket_endpoint [t1, t2] s =
           ([EvFetch, EvSend (format_2f P), EvSleep, EvFetch, EvSend (format_2f P), EvSleep],
            s\<lparr>current_price := Some P, last_update := Some (te_clock t2)\<rparr>, StillOpen)"
  using assms by (simp add: tick_def get_stock_price_def frame_for_def)

theorem repeated_success_witness:
  "websocket_endpoint [tick_ok price_102_5, tick_ok price_102_5] StockDataManager_init =
     ([EvFetch, EvSend ''102.50'', EvSleep, EvFetch, EvSend ''102.50'', EvSleep],
      manager_with price_102_5, StillOpen)"
proof -
  have l: "price_lookup (te_history (tick_ok price_102_5)) = Inr (Some price_102_5)"
    by (simp add: tick_ok_def lookup_close)
  have e: "te_send (tick_ok price_102_5) = None" "te_sleep (tick_ok price_102_5) = None"
    by (simp_all add: tick_ok_def)
  show ?thesis
    using repeated_success_idempotent [OF l l e e, of StockDataManager_init]
    by (simp add: format_102_5 manager_with_def StockDataManager_init_def tick_ok_def)
qed

text \<open>
  C10. The manager starts with \<open>current_price\<close> and \<open>last_update\<close> both unset, and
  after any sequence of calls of the adapter, loop iterations, whole loops and status
  checks, \<open>current_price\<close> is unset exactly when \<open>last_update\<close> is.
\<close>

theorem price_and_timestamp_set_together:
  "current_price StockDataManager_init = None
   \<and> last_update StockDataManager_init = None
   \<and> price_time_inv (perform_all ops StockDataManager_init)"
proof -
  have "price_time_inv StockDataManager_init"
    by (simp add: price_time_inv_def StockDataManager_init_def)
  then show ?thesis by (simp add: perform_all_inv StockDataManager_init_def)
qed

end
